theory Spec2Isabelle
  imports Main "HOL-Library.Word" "HOL-Library.Signed_Division"
begin

unbundle bit_operations_syntax

section \<open>Values of the Go program\<close>

text \<open>
  \<open>int64\<close> is a 64-bit word read as two's complement. \<open>float32\<close> and \<open>float64\<close> are
  their IEEE-754 bit patterns; the comparisons and the \<open>%f\<close> verb are computed from the
  sign, the exponent and the mantissa, so that no real-number approximation enters.
\<close>

type_synonym int64 = "64 word"
type_synonym float32 = "32 word"
type_synonym float64 = "64 word"

definition f32_sign :: "float32 \<Rightarrow> bool" where
  "f32_sign w = bit w 31"

definition f32_exp :: "float32 \<Rightarrow> nat" where
  "f32_exp w = unat (drop_bit 23 w AND 0xFF)"

definition f32_man :: "float32 \<Rightarrow> int" where
  "f32_man w = uint (w AND 0x7FFFFF)"

definition f32_isNaN :: "float32 \<Rightarrow> bool" where
  "f32_isNaN w = (f32_exp w = 255 \<and> f32_man w \<noteq> 0)"

definition f32_isInf :: "float32 \<Rightarrow> bool" where
  "f32_isInf w = (f32_exp w = 255 \<and> f32_man w = 0)"

text \<open>
  The magnitude of a float32 times \<open>2 ^ 149\<close> is an integer: a subnormal is
  \<open>m * 2 ^ -149\<close>, a normal number \<open>(2 ^ 23 + m) * 2 ^ (e - 150)\<close>. An infinity gets
  the next power of two, \<open>2 ^ 128\<close>, which is above every finite float32 and so orders
  as the infinity does.
\<close>

definition f32_mag :: "float32 \<Rightarrow> int" where
  "f32_mag w = (if f32_exp w = 0 then f32_man w
                else (2 ^ 23 + f32_man w) * 2 ^ (f32_exp w - 1))"

definition f32_num :: "float32 \<Rightarrow> int" where
  "f32_num w = (if f32_sign w then - f32_mag w else f32_mag w)"

definition f32_unit :: int where
  "f32_unit = 2 ^ 149"

text \<open>Go's \<open>==\<close>, \<open><\<close> and \<open><=\<close> on float32: false as soon as one side is a NaN.\<close>

definition f32_eq :: "float32 \<Rightarrow> float32 \<Rightarrow> bool" where
  "f32_eq a b = (\<not> f32_isNaN a \<and> \<not> f32_isNaN b \<and> f32_num a = f32_num b)"

definition f32_lt :: "float32 \<Rightarrow> float32 \<Rightarrow> bool" where
  "f32_lt a b = (\<not> f32_isNaN a \<and> \<not> f32_isNaN b \<and> f32_num a < f32_num b)"

definition f32_le :: "float32 \<Rightarrow> float32 \<Rightarrow> bool" where
  "f32_le a b = (\<not> f32_isNaN a \<and> \<not> f32_isNaN b \<and> f32_num a \<le> f32_num b)"

definition f32_zero :: float32 where
  "f32_zero = 0"

definition f32_one :: float32 where
  "f32_one = 0x3F800000"

text \<open>\<open>value < 0\<close> on a float64: the sign bit set, not a NaN, not minus zero.\<close>

definition f64_exp :: "float64 \<Rightarrow> nat" where
  "f64_exp w = unat (drop_bit 52 w AND 0x7FF)"

definition f64_man :: "float64 \<Rightarrow> int" where
  "f64_man w = uint (w AND 0xFFFFFFFFFFFFF)"

definition f64_lt_zero :: "float64 \<Rightarrow> bool" where
  "f64_lt_zero w = (bit w 63 \<and> \<not> (f64_exp w = 2047 \<and> f64_man w \<noteq> 0)
                     \<and> \<not> (f64_exp w = 0 \<and> f64_man w = 0))"

subsection \<open>Formatting\<close>

definition digit :: "int \<Rightarrow> char" where
  "digit d = ''0123456789'' ! nat (d mod 10)"

function dec_pos :: "int \<Rightarrow> string" where
  "dec_pos n = (if n < 10 then [digit n] else dec_pos (n div 10) @ [digit n])"
  by pat_completeness auto
termination
  by (relation "measure nat") auto

declare dec_pos.simps [simp del]

text \<open>The verbs \<open>%d\<close> and \<open>%v\<close> on an integer.\<close>

definition dec_int :: "int \<Rightarrow> string" where
  "dec_int i = (if i < 0 then ''-'' @ dec_pos (- i) else dec_pos i)"

definition round_half_even :: "int \<Rightarrow> int \<Rightarrow> int" where
  "round_half_even n d =
     (let q = n div d; r = n mod d
      in if 2 * r > d \<or> (2 * r = d \<and> odd q) then q + 1 else q)"

definition dec6 :: "int \<Rightarrow> string" where
  "dec6 n = map (\<lambda>k. digit (n div 10 ^ k)) [5, 4, 3, 2, 1, 0]"

text \<open>
  The verb \<open>%f\<close> on a float32: the exact value rounded half-to-even to six decimal
  places, the sign kept also where the rounded value is zero; \<open>NaN\<close>, \<open>+Inf\<close> and
  \<open>-Inf\<close> for the special values.
\<close>

definition fmt_f32 :: "float32 \<Rightarrow> string" where
  "fmt_f32 w =
     (if f32_isNaN w then ''NaN''
      else if f32_isInf w then (if f32_sign w then ''-Inf'' else ''+Inf'')
      else let q = round_half_even (f32_mag w * 10 ^ 6) (2 ^ 149)
           in (if f32_sign w then ''-'' else '''') @ dec_pos (q div 10 ^ 6) @ ''.'' @ dec6 (q mod 10 ^ 6))"

text \<open>
  The dynamic types the program stores in an \<open>interface{}\<close> value: the untyped
  constant \<open>0\<close> of the gauge reset (an \<open>int\<close>), an \<open>int64\<close> and a \<open>float64\<close>.
\<close>

datatype val = VInt int | VInt64 int64 | VFloat64 float64

text \<open>
  The verb \<open>%v\<close>. The shortest-digits rendering of a float64 belongs to Go's \<open>strconv\<close>,
  not to this repository: it is the parameter \<open>F\<close>.
\<close>

definition fmt_v :: "(float64 \<Rightarrow> string) \<Rightarrow> val \<Rightarrow> string" where
  "fmt_v F v = (case v of VInt i \<Rightarrow> dec_int i | VInt64 w \<Rightarrow> dec_int (sint w) | VFloat64 d \<Rightarrow> F d)"

section \<open>The client (conn.go)\<close>

datatype error = ErrNotConnected | ErrInvalidCount | ErrInvalidSampleRate | ErrNet

text \<open>
  The UDP connection: \<open>writes\<close> holds the payloads handed to \<open>conn.Write\<close>, oldest
  first. Whether a write reports an error is the network's choice: \<open>wfail n\<close> says so
  for the write that follows \<open>n\<close> earlier ones.
\<close>

record netConn =
  writes :: "string list"
  wfail :: "nat \<Rightarrow> bool"

definition conn_Write :: "netConn \<Rightarrow> string \<Rightarrow> error option \<times> netConn" where
  "conn_Write k p =
     ((if wfail k (length (writes k)) then Some ErrNet else None), k\<lparr>writes := writes k @ [p]\<rparr>)"

record countBuffer =
  name :: string
  count :: int64

text \<open>
  The mutex \<open>m\<close> and the ticker are not fields of the model: each section the code runs
  between \<open>Lock\<close> and \<open>Unlock\<close> is one function here, and each tick is one call of
  the loop body.
\<close>

record Client =
  addr :: string
  prefix :: string
  conn :: "netConn option"
  buffer :: "countBuffer list"

definition checkCount :: "int64 \<Rightarrow> error option" where
  "checkCount c = (if c \<le>s 0 then Some ErrInvalidCount else None)"

definition checkSampleRate :: "float32 \<Rightarrow> error option" where
  "checkSampleRate r =
     (if f32_lt r f32_zero \<or> f32_lt f32_one r then Some ErrInvalidSampleRate else None)"

text \<open>
  The package's random source \<open>fireRand\<close>: the stream of the values its \<open>Float32\<close>
  calls will return.
\<close>

type_synonym rng = "nat \<Rightarrow> float32"

definition Float32 :: "rng \<Rightarrow> float32 \<times> rng" where
  "Float32 g = (g 0, (\<lambda>n. g (Suc n)))"

definition shouldFire :: "float32 \<Rightarrow> rng \<Rightarrow> bool \<times> rng" where
  "shouldFire sampleRate g =
     (if f32_eq sampleRate f32_one then (True, g)
      else let (x, g') = Float32 g in (f32_le x sampleRate, g'))"

text \<open>
  \<open>send\<close>: \<open>Sprintf "%s.%s"\<close> on a non-empty prefix, then
  \<open>Sprintf "%s:%v|%s|@%f"\<close>, then one \<open>conn.Write\<close>.
\<close>

definition send_c :: "(float64 \<Rightarrow> string) \<Rightarrow> Client \<Rightarrow> string \<Rightarrow> val \<Rightarrow> string \<Rightarrow> float32
                     \<Rightarrow> error option \<times> Client" where
  "send_c F c bucket v t sampleRate =
     (case conn c of
        None \<Rightarrow> (Some ErrNotConnected, c)
      | Some k \<Rightarrow>
          let bucket' = (if prefix c \<noteq> '''' then prefix c @ ''.'' @ bucket else bucket);
              metric = bucket' @ '':'' @ fmt_v F v @ ''|'' @ t @ ''|@'' @ fmt_f32 sampleRate;
              (err, k') = conn_Write k metric
          in (err, c\<lparr>conn := Some k'\<rparr>))"

text \<open>
  The loop of \<open>addToBuffer\<close>: the first bucket named \<open>stat\<close> gets \<open>count++\<close>;
  \<open>None\<close> when the loop ends without a match.
\<close>

fun bump_first :: "string \<Rightarrow> countBuffer list \<Rightarrow> countBuffer list option" where
  "bump_first stat [] = None"
| "bump_first stat (b # bs) =
     (if name b = stat then Some (b\<lparr>count := count b + 1\<rparr> # bs)
      else map_option ((#) b) (bump_first stat bs))"

definition addToBuffer :: "Client \<Rightarrow> string \<Rightarrow> int64 \<Rightarrow> Client" where
  "addToBuffer c stat cnt =
     (case bump_first stat (buffer c) of
        Some bs \<Rightarrow> c\<lparr>buffer := bs\<rparr>
      | None \<Rightarrow> c\<lparr>buffer := buffer c @ [\<lparr>name = stat, count = cnt\<rparr>]\<rparr>)"

text \<open>
  One tick of \<open>bufferSendLoop\<close>. \<open>flush_swap\<close> is the locked section (lines 58 to 65):
  it takes the whole buffer and leaves \<open>nil\<close>. \<open>flush_send\<close> is the loop after
  \<open>Unlock\<close>; the error each \<open>send\<close> returns is dropped, as in the code.
\<close>

definition flush_swap :: "Client \<Rightarrow> countBuffer list \<times> Client" where
  "flush_swap c = (buffer c, c\<lparr>buffer := []\<rparr>)"

fun flush_send :: "(float64 \<Rightarrow> string) \<Rightarrow> countBuffer list \<Rightarrow> Client \<Rightarrow> Client" where
  "flush_send F [] c = c"
| "flush_send F (b # bs) c = flush_send F bs (snd (send_c F c (name b) (VInt64 (count b)) ''c'' f32_one))"

definition bufferSendLoop_step :: "(float64 \<Rightarrow> string) \<Rightarrow> Client \<Rightarrow> Client" where
  "bufferSendLoop_step F c =
     (if length (buffer c) = 0 then c
      else let (buf, c') = flush_swap c in flush_send F buf c')"

text \<open>The exported methods. Each returns its error, the client and the random source.\<close>

definition IncrWithSampling_c :: "Client \<Rightarrow> string \<Rightarrow> int64 \<Rightarrow> float32 \<Rightarrow> rng
                                  \<Rightarrow> error option \<times> Client \<times> rng" where
  "IncrWithSampling_c c stat cnt sampleRate g =
     (case checkSampleRate sampleRate of
        Some e \<Rightarrow> (Some e, c, g)
      | None \<Rightarrow>
          let (fire, g') = shouldFire sampleRate g
          in if \<not> fire then (None, c, g')
             else (case checkCount cnt of
                     Some e \<Rightarrow> (Some e, c, g')
                   | None \<Rightarrow> (None, addToBuffer c stat cnt, g')))"

definition Incr_c :: "Client \<Rightarrow> string \<Rightarrow> int64 \<Rightarrow> rng \<Rightarrow> error option \<times> Client \<times> rng" where
  "Incr_c c stat cnt g = IncrWithSampling_c c stat cnt f32_one g"

definition DecrWithSampling :: "(float64 \<Rightarrow> string) \<Rightarrow> Client \<Rightarrow> string \<Rightarrow> int64 \<Rightarrow> float32 \<Rightarrow> rng
                                \<Rightarrow> error option \<times> Client \<times> rng" where
  "DecrWithSampling F c stat cnt sampleRate g =
     (case checkSampleRate sampleRate of
        Some e \<Rightarrow> (Some e, c, g)
      | None \<Rightarrow>
          let (fire, g') = shouldFire sampleRate g
          in if \<not> fire then (None, c, g')
             else (case checkCount cnt of
                     Some e \<Rightarrow> (Some e, c, g')
                   | None \<Rightarrow>
                       let (err, c') = send_c F c stat (VInt64 (- cnt)) ''c'' sampleRate
                       in (err, c', g')))"

definition Decr :: "(float64 \<Rightarrow> string) \<Rightarrow> Client \<Rightarrow> string \<Rightarrow> int64 \<Rightarrow> rng
                    \<Rightarrow> error option \<times> Client \<times> rng" where
  "Decr F c stat cnt g = DecrWithSampling F c stat cnt f32_one g"

definition TimingWithSampling_c :: "(float64 \<Rightarrow> string) \<Rightarrow> Client \<Rightarrow> string \<Rightarrow> int64 \<Rightarrow> float32 \<Rightarrow> rng
                                    \<Rightarrow> error option \<times> Client \<times> rng" where
  "TimingWithSampling_c F c stat delta sampleRate g =
     (case checkSampleRate sampleRate of
        Some e \<Rightarrow> (Some e, c, g)
      | None \<Rightarrow>
          let (fire, g') = shouldFire sampleRate g
          in if \<not> fire then (None, c, g')
             else let (err, c') = send_c F c stat (VInt64 delta) ''ms'' sampleRate
                  in (err, c', g'))"

definition GaugeWithSampling_c :: "(float64 \<Rightarrow> string) \<Rightarrow> Client \<Rightarrow> string \<Rightarrow> int64 \<Rightarrow> float32 \<Rightarrow> rng
                                   \<Rightarrow> error option \<times> Client \<times> rng" where
  "GaugeWithSampling_c F c stat v sampleRate g =
     (case checkSampleRate sampleRate of
        Some e \<Rightarrow> (Some e, c, g)
      | None \<Rightarrow>
          let (fire, g') = shouldFire sampleRate g
          in if \<not> fire then (None, c, g')
             else let c1 = (if v <s 0 then snd (send_c F c stat (VInt 0) ''g'' f32_one) else c);
                      (err, c2) = send_c F c1 stat (VInt64 v) ''g'' sampleRate
                  in (err, c2, g'))"

definition FGaugeWithSampling_c :: "(float64 \<Rightarrow> string) \<Rightarrow> Client \<Rightarrow> string \<Rightarrow> float64 \<Rightarrow> float32 \<Rightarrow> rng
                                    \<Rightarrow> error option \<times> Client \<times> rng" where
  "FGaugeWithSampling_c F c stat v sampleRate g =
     (case checkSampleRate sampleRate of
        Some e \<Rightarrow> (Some e, c, g)
      | None \<Rightarrow>
          let (fire, g') = shouldFire sampleRate g
          in if \<not> fire then (None, c, g')
             else let c1 = (if f64_lt_zero v then snd (send_c F c stat (VInt 0) ''g'' f32_one) else c);
                      (err, c2) = send_c F c1 stat (VFloat64 v) ''g'' sampleRate
                  in (err, c2, g'))"

section \<open>The package (statsd.go)\<close>

record Config =
  Host :: string
  Port :: int
  Project :: string
  Enable :: bool
  SampleRate :: float32

definition defaultSampleRate :: float32 where
  "defaultSampleRate = f32_one"

type_synonym metricType = "16 word"

definition metricTypeCount :: metricType where
  "metricTypeCount = 0"

definition metricTypeGauge :: metricType where
  "metricTypeGauge = 1"

definition metricTypeFGauge :: metricType where
  "metricTypeFGauge = 2"

definition metricTypeTimer :: metricType where
  "metricTypeTimer = 3"

record sendItem =
  it_stat :: string
  it_val :: val
  it_t :: metricType
  it_sampleRate :: float32

text \<open>
  A panic is a value: the nil dereference of the Go runtime, or the \<open>panic(err)\<close> of
  \<open>getClient\<close>. A function that can panic returns the panic, if any, next to the state
  it leaves behind.
\<close>

datatype panic = NilDeref | DialPanic

text \<open>
  The package's variables. \<open>sendCh\<close> is \<open>None\<close> while the channel is nil and else
  the items queued in it, oldest first; \<open>worker\<close> says that the goroutine draining it
  runs. \<open>dial\<close> is the network: the connection \<open>net.DialTimeout\<close> gives for an
  address, or \<open>None\<close> for its error.
\<close>

record pkg =
  config :: "Config option"
  pkg_addr :: string
  once :: bool
  defaultClient :: "Client option"
  sendLoopOnce :: bool
  sendCh :: "sendItem list option"
  worker :: bool
  fireRand :: rng
  dial :: "string \<Rightarrow> netConn option"

definition Setup :: "pkg \<Rightarrow> Config option \<Rightarrow> panic option \<times> pkg" where
  "Setup w cfg =
     (case cfg of
        None \<Rightarrow> (Some NilDeref, w\<lparr>config := None\<rparr>)
      | Some c \<Rightarrow>
          let c' = (if f32_eq (SampleRate c) f32_zero then c\<lparr>SampleRate := defaultSampleRate\<rparr> else c)
          in (None, w\<lparr>config := Some c', pkg_addr := Host c' @ '':'' @ dec_int (Port c')\<rparr>))"

text \<open>\<open>strings.TrimRight(prefix, ".")\<close>\<close>

definition TrimRight_dot :: "string \<Rightarrow> string" where
  "TrimRight_dot s = rev (dropWhile (\<lambda>ch. ch = CHR ''.'') (rev s))"

text \<open>
  \<open>newClient\<close>; \<open>None\<close> is its \<open>(nil, err)\<close>. The goroutine it starts is
  \<open>bufferSendLoop\<close>, whose ticks are the calls of \<open>bufferSendLoop_step\<close>.
\<close>

definition newClient :: "(string \<Rightarrow> netConn option) \<Rightarrow> string \<Rightarrow> string \<Rightarrow> Client option" where
  "newClient d a p =
     (let p' = TrimRight_dot p
      in case d a of
           None \<Rightarrow> None
         | Some k \<Rightarrow> Some \<lparr>addr = a, prefix = p', conn = Some k, buffer = []\<rparr>)"

text \<open>
  \<open>getClient\<close> returns the pointer \<open>defaultClient\<close> of the state it leaves.
  \<open>once.Do\<close> counts as done also when its function panics.
\<close>

definition getClient :: "pkg \<Rightarrow> panic option \<times> pkg" where
  "getClient w =
     (if once w then (None, w)
      else let w0 = w\<lparr>once := True\<rparr>
           in case config w0 of
                None \<Rightarrow> (Some NilDeref, w0)
              | Some cfg \<Rightarrow>
                  (case newClient (dial w0) (pkg_addr w0) (Project cfg) of
                     None \<Rightarrow> (Some DialPanic, w0)
                   | Some c \<Rightarrow> (None, w0\<lparr>defaultClient := Some c\<rparr>)))"

text \<open>
  A method called through a nil \<open>*Client\<close> runs until it reads a field.
  \<open>IncrWithSampling\<close> reads one in \<open>addToBuffer\<close>, after its three checks; the
  gauge and timing methods read one in \<open>send\<close>, after the sampling decision.
\<close>

definition nil_IncrWithSampling :: "int64 \<Rightarrow> float32 \<Rightarrow> rng \<Rightarrow> panic option \<times> rng" where
  "nil_IncrWithSampling cnt sampleRate g =
     (case checkSampleRate sampleRate of
        Some e \<Rightarrow> (None, g)
      | None \<Rightarrow>
          let (fire, g') = shouldFire sampleRate g
          in if \<not> fire then (None, g')
             else (case checkCount cnt of
                     Some e \<Rightarrow> (None, g')
                   | None \<Rightarrow> (Some NilDeref, g')))"

definition nil_sending :: "float32 \<Rightarrow> rng \<Rightarrow> panic option \<times> rng" where
  "nil_sending sampleRate g =
     (case checkSampleRate sampleRate of
        Some e \<Rightarrow> (None, g)
      | None \<Rightarrow>
          let (fire, g') = shouldFire sampleRate g
          in if \<not> fire then (None, g') else (Some NilDeref, g'))"

text \<open>
  The calls through a pointer, as the package makes them: the error a method returns is
  dropped at every call site.
\<close>

definition IncrWithSampling_p :: "Client option \<Rightarrow> string \<Rightarrow> int64 \<Rightarrow> float32 \<Rightarrow> rng
                                  \<Rightarrow> panic option \<times> Client option \<times> rng" where
  "IncrWithSampling_p p stat cnt sampleRate g =
     (case p of
        None \<Rightarrow> (let (x, g') = nil_IncrWithSampling cnt sampleRate g in (x, None, g'))
      | Some c \<Rightarrow> (let (e, c', g') = IncrWithSampling_c c stat cnt sampleRate g in (None, Some c', g')))"

definition GaugeWithSampling_p :: "(float64 \<Rightarrow> string) \<Rightarrow> Client option \<Rightarrow> string \<Rightarrow> int64 \<Rightarrow> float32 \<Rightarrow> rng
                                   \<Rightarrow> panic option \<times> Client option \<times> rng" where
  "GaugeWithSampling_p F p stat v sampleRate g =
     (case p of
        None \<Rightarrow> (let (x, g') = nil_sending sampleRate g in (x, None, g'))
      | Some c \<Rightarrow> (let (e, c', g') = GaugeWithSampling_c F c stat v sampleRate g in (None, Some c', g')))"

definition FGaugeWithSampling_p :: "(float64 \<Rightarrow> string) \<Rightarrow> Client option \<Rightarrow> string \<Rightarrow> float64 \<Rightarrow> float32 \<Rightarrow> rng
                                    \<Rightarrow> panic option \<times> Client option \<times> rng" where
  "FGaugeWithSampling_p F p stat v sampleRate g =
     (case p of
        None \<Rightarrow> (let (x, g') = nil_sending sampleRate g in (x, None, g'))
      | Some c \<Rightarrow> (let (e, c', g') = FGaugeWithSampling_c F c stat v sampleRate g in (None, Some c', g')))"

definition TimingWithSampling_p :: "(float64 \<Rightarrow> string) \<Rightarrow> Client option \<Rightarrow> string \<Rightarrow> int64 \<Rightarrow> float32 \<Rightarrow> rng
                                    \<Rightarrow> panic option \<times> Client option \<times> rng" where
  "TimingWithSampling_p F p stat delta sampleRate g =
     (case p of
        None \<Rightarrow> (let (x, g') = nil_sending sampleRate g in (x, None, g'))
      | Some c \<Rightarrow> (let (e, c', g') = TimingWithSampling_c F c stat delta sampleRate g in (None, Some c', g')))"

text \<open>\<open>getClient().IncrWithSampling(stat, val, sampleRate)\<close>\<close>

definition getClient_IncrWithSampling :: "pkg \<Rightarrow> string \<Rightarrow> int64 \<Rightarrow> float32 \<Rightarrow> panic option \<times> pkg" where
  "getClient_IncrWithSampling w stat v sampleRate =
     (let (x, w1) = getClient w
      in case x of
           Some y \<Rightarrow> (Some y, w1)
         | None \<Rightarrow>
             let (x', p', g') = IncrWithSampling_p (defaultClient w1) stat v sampleRate (fireRand w1)
             in (x', w1\<lparr>defaultClient := p', fireRand := g'\<rparr>))"

text \<open>
  \<open>getClient().Incr(stat, 1)\<close>, where \<open>Client.Incr\<close> is \<open>IncrWithSampling\<close> at rate 1.
\<close>

definition Incr :: "pkg \<Rightarrow> string \<Rightarrow> panic option \<times> pkg" where
  "Incr w stat = getClient_IncrWithSampling w stat 1 f32_one"

definition IncrByVal :: "pkg \<Rightarrow> string \<Rightarrow> int64 \<Rightarrow> panic option \<times> pkg" where
  "IncrByVal w stat v =
     (case config w of
        None \<Rightarrow> (None, w)
      | Some cfg \<Rightarrow> getClient_IncrWithSampling w stat v (SampleRate cfg))"

definition IncrWithSampling :: "pkg \<Rightarrow> string \<Rightarrow> int64 \<Rightarrow> float32 \<Rightarrow> panic option \<times> pkg" where
  "IncrWithSampling w stat v sampleRate =
     (case config w of
        None \<Rightarrow> (None, w)
      | Some cfg \<Rightarrow>
          if \<not> Enable cfg then (None, w)
          else if v = 0 then (None, w)
          else getClient_IncrWithSampling w stat v sampleRate)"

text \<open>
  \<open>sendAsync\<close>: the body of \<open>sendLoopOnce.Do\<close> on the first call, then the
  \<open>select\<close> with its empty \<open>default\<close>. A send on a nil channel is never ready.
\<close>

definition sendAsync :: "pkg \<Rightarrow> string \<Rightarrow> val \<Rightarrow> metricType \<Rightarrow> float32 \<Rightarrow> panic option \<times> pkg" where
  "sendAsync w stat v t sampleRate =
     (let (x, w1) =
            (if sendLoopOnce w then (None, w)
             else let w0 = w\<lparr>sendLoopOnce := True,
                             sendCh := (case sendCh w of None \<Rightarrow> Some [] | Some q \<Rightarrow> Some q)\<rparr>;
                      (y, w') = getClient w0
                  in case y of
                       Some z \<Rightarrow> (Some z, w')
                     | None \<Rightarrow> (None, w'\<lparr>worker := True\<rparr>))
      in case x of
           Some y \<Rightarrow> (Some y, w1)
         | None \<Rightarrow>
             (case sendCh w1 of
                None \<Rightarrow> (None, w1)
              | Some q \<Rightarrow>
                  if length q < 1024
                  then (None, w1\<lparr>sendCh := Some (q @ [\<lparr>it_stat = stat, it_val = v, it_t = t,
                                                       it_sampleRate = sampleRate\<rparr>])\<rparr>)
                  else (None, w1)))"

definition send :: "pkg \<Rightarrow> string \<Rightarrow> val \<Rightarrow> metricType \<Rightarrow> float32 \<Rightarrow> panic option \<times> pkg" where
  "send w stat v t sampleRate = sendAsync w stat v t sampleRate"

definition gauge :: "pkg \<Rightarrow> string \<Rightarrow> val \<Rightarrow> metricType \<Rightarrow> float32 \<Rightarrow> panic option \<times> pkg" where
  "gauge w stat v t sampleRate = send w stat v t sampleRate"

definition GaugeWithSampling :: "pkg \<Rightarrow> string \<Rightarrow> int64 \<Rightarrow> float32 \<Rightarrow> panic option \<times> pkg" where
  "GaugeWithSampling w stat v sampleRate =
     (case config w of
        None \<Rightarrow> (None, w)
      | Some cfg \<Rightarrow>
          if \<not> Enable cfg then (None, w)
          else gauge w stat (VInt64 v) metricTypeGauge sampleRate)"

definition Gauge :: "pkg \<Rightarrow> string \<Rightarrow> int64 \<Rightarrow> panic option \<times> pkg" where
  "Gauge w stat v =
     (case config w of
        None \<Rightarrow> (None, w)
      | Some cfg \<Rightarrow> GaugeWithSampling w stat v (SampleRate cfg))"

definition FGaugeWithSampling :: "pkg \<Rightarrow> string \<Rightarrow> float64 \<Rightarrow> float32 \<Rightarrow> panic option \<times> pkg" where
  "FGaugeWithSampling w stat v sampleRate =
     (case config w of
        None \<Rightarrow> (None, w)
      | Some cfg \<Rightarrow>
          if \<not> Enable cfg then (None, w)
          else gauge w stat (VFloat64 v) metricTypeFGauge sampleRate)"

definition FGauge :: "pkg \<Rightarrow> string \<Rightarrow> float64 \<Rightarrow> panic option \<times> pkg" where
  "FGauge w stat v =
     (case config w of
        None \<Rightarrow> (None, w)
      | Some cfg \<Rightarrow> FGaugeWithSampling w stat v (SampleRate cfg))"

text \<open>
  A \<open>time.Duration\<close> is an int64 of nanoseconds, and \<open>d / time.Millisecond\<close> the
  quotient truncated towards zero. A \<open>time.Time\<close> is taken as its nanoseconds on one
  clock; \<open>Sub\<close> saturates at the ends of int64, as its documentation says.
\<close>

definition Millisecond :: int where
  "Millisecond = 1000000"

definition TimingByValueWithSampling :: "pkg \<Rightarrow> string \<Rightarrow> int64 \<Rightarrow> float32 \<Rightarrow> panic option \<times> pkg" where
  "TimingByValueWithSampling w stat d sampleRate =
     (case config w of
        None \<Rightarrow> (None, w)
      | Some cfg \<Rightarrow>
          if \<not> Enable cfg then (None, w)
          else let t = (word_of_int (sint d sdiv Millisecond) :: int64)
               in send w stat (VInt64 t) metricTypeTimer sampleRate)"

definition TimingByValue :: "pkg \<Rightarrow> string \<Rightarrow> int64 \<Rightarrow> panic option \<times> pkg" where
  "TimingByValue w stat d =
     (case config w of
        None \<Rightarrow> (None, w)
      | Some cfg \<Rightarrow> TimingByValueWithSampling w stat d (SampleRate cfg))"

definition time_Sub :: "int \<Rightarrow> int \<Rightarrow> int64" where
  "time_Sub t2 t1 =
     (let d = t2 - t1
      in if d > 2 ^ 63 - 1 then word_of_int (2 ^ 63 - 1)
         else if d < - (2 ^ 63) then word_of_int (- (2 ^ 63))
         else word_of_int d)"

definition TimingWithSampling :: "pkg \<Rightarrow> string \<Rightarrow> int \<Rightarrow> int \<Rightarrow> float32 \<Rightarrow> panic option \<times> pkg" where
  "TimingWithSampling w stat t1 t2 sampleRate =
     TimingByValueWithSampling w stat (time_Sub t2 t1) sampleRate"

definition Timing :: "pkg \<Rightarrow> string \<Rightarrow> int \<Rightarrow> int \<Rightarrow> panic option \<times> pkg" where
  "Timing w stat t1 t2 =
     (case config w of
        None \<Rightarrow> (None, w)
      | Some cfg \<Rightarrow> TimingWithSampling w stat t1 t2 (SampleRate cfg))"

text \<open>\<open>sendEx\<close>: the type assertions \<open>val.(int64)\<close> and \<open>val.(float64)\<close> are the cases on \<open>v\<close>.\<close>

definition sendEx :: "(float64 \<Rightarrow> string) \<Rightarrow> Client option \<Rightarrow> string \<Rightarrow> val \<Rightarrow> metricType \<Rightarrow> float32 \<Rightarrow> rng
                      \<Rightarrow> panic option \<times> Client option \<times> rng" where
  "sendEx F client stat v t sampleRate g =
     (if stat = '''' then (None, client, g)
      else if t = metricTypeCount then
        (case v of VInt64 i \<Rightarrow> IncrWithSampling_p client stat i sampleRate g | _ \<Rightarrow> (None, client, g))
      else if t = metricTypeGauge then
        (case v of VInt64 i \<Rightarrow> GaugeWithSampling_p F client stat i sampleRate g | _ \<Rightarrow> (None, client, g))
      else if t = metricTypeFGauge then
        (case v of VFloat64 i \<Rightarrow> FGaugeWithSampling_p F client stat i sampleRate g | _ \<Rightarrow> (None, client, g))
      else if t = metricTypeTimer then
        (case v of VInt64 i \<Rightarrow> TimingWithSampling_p F client stat i sampleRate g | _ \<Rightarrow> (None, client, g))
      else (None, client, g))"

text \<open>
  One turn of the worker goroutine, \<open>for item := range sendCh\<close>: it takes the oldest
  item and calls \<open>sendEx\<close> on the client \<open>getClient\<close> returned, which is
  \<open>defaultClient\<close>. On an empty channel it waits: the state stays as it is.
\<close>

definition worker_step :: "(float64 \<Rightarrow> string) \<Rightarrow> pkg \<Rightarrow> panic option \<times> pkg" where
  "worker_step F w =
     (if \<not> worker w then (None, w)
      else case sendCh w of
             None \<Rightarrow> (None, w)
           | Some [] \<Rightarrow> (None, w)
           | Some (item # rest) \<Rightarrow>
               let (x, p', g') = sendEx F (defaultClient w) (it_stat item) (it_val item) (it_t item)
                                   (it_sampleRate item) (fireRand w)
               in (x, w\<lparr>sendCh := Some rest, defaultClient := p', fireRand := g'\<rparr>))"

section \<open>The wire format in the spec's words\<close>

text \<open>
  The spec's encoder (4.2): \<open><prefix>.<stat>:<value>|<typeTag>|@<sampleRate>\<close> when the
  prefix is non-empty, else \<open><stat>:<value>|<typeTag>|@<sampleRate>\<close>. It is written
  from the spec, to be compared with what \<open>send_c\<close> hands to the connection.
\<close>

definition spec_encode :: "(float64 \<Rightarrow> string) \<Rightarrow> string \<Rightarrow> string \<Rightarrow> val \<Rightarrow> string \<Rightarrow> float32 \<Rightarrow> string" where
  "spec_encode F p stat v t r =
     (if p \<noteq> '''' then p @ ''.'' @ stat @ '':'' @ fmt_v F v @ ''|'' @ t @ ''|@'' @ fmt_f32 r
      else stat @ '':'' @ fmt_v F v @ ''|'' @ t @ ''|@'' @ fmt_f32 r)"

text \<open>The items the dispatch channel holds, none while it is nil.\<close>

definition queue :: "pkg \<Rightarrow> sendItem list" where
  "queue w = (case sendCh w of None \<Rightarrow> [] | Some q \<Rightarrow> q)"

text \<open>The count pending for a name: that of the first bucket with this name, if any.\<close>

definition pending :: "string \<Rightarrow> countBuffer list \<Rightarrow> int64 option" where
  "pending stat bs = map_option count (find (\<lambda>b. name b = stat) bs)"

section \<open>Concrete states\<close>

text \<open>
  A connection on which nothing was written and no write fails, a client with the prefix
  \<open>app\<close> on it, a random source, a configuration, and the package before \<open>Setup\<close>.
  \<open>fmtF0\<close> renders the one float64 the examples use, \<open>-3\<close>, as Go does.
\<close>

definition conn0 :: netConn where
  "conn0 = \<lparr>writes = [], wfail = (\<lambda>n. False)\<rparr>"

definition client0 :: Client where
  "client0 = \<lparr>addr = ''127.0.0.1:8125'', prefix = ''app'', conn = Some conn0, buffer = []\<rparr>"

definition rng0 :: rng where
  "rng0 = (\<lambda>n. 0)"

definition fmtF0 :: "float64 \<Rightarrow> string" where
  "fmtF0 = (\<lambda>x. ''-3'')"

definition config0 :: Config where
  "config0 = \<lparr>Host = ''127.0.0.1'', Port = 8125, Project = ''app.'', Enable = True, SampleRate = 0\<rparr>"

definition pkg0 :: pkg where
  "pkg0 = \<lparr>config = None, pkg_addr = '''', once = False, defaultClient = None, sendLoopOnce = False,
           sendCh = None, worker = False, fireRand = rng0, dial = (\<lambda>a. Some conn0)\<rparr>"

text \<open>The package after \<open>Setup\<close> with \<open>Enable\<close> false, and with \<open>Enable\<close> true.\<close>

definition pkg_off :: pkg where
  "pkg_off = snd (Setup pkg0 (Some (config0\<lparr>Enable := False\<rparr>)))"

definition pkg_on :: pkg where
  "pkg_on = snd (Setup pkg0 (Some config0))"

section \<open>Facts about the values\<close>

lemma fmt_f32_one: "fmt_f32 f32_one = ''1.000000''"
  by code_simp

lemma f32_eq_one: "f32_eq f32_one f32_one"
  by code_simp

lemma f32_num_zero: "f32_num f32_zero = 0"
  by code_simp

lemma f32_num_one: "f32_num f32_one = f32_unit"
  by code_simp

lemma f32_zero_not_NaN: "\<not> f32_isNaN f32_zero"
  by code_simp

lemma f32_one_not_NaN: "\<not> f32_isNaN f32_one"
  by code_simp

lemma dec_int_0: "dec_int 0 = ''0''"
  by code_simp

lemma checkSampleRate_one: "checkSampleRate f32_one = None"
  by code_simp

lemma checkCount_one: "checkCount 1 = None"
  by code_simp

lemma shouldFire_one: "shouldFire f32_one g = (True, g)"
  by (simp add: shouldFire_def f32_eq_one)

text \<open>
  The value of \<open>r\<close> is \<open>f32_num r / 2 ^ 149\<close>, so \<open>r < 0\<close> is \<open>f32_num r < 0\<close> and
  \<open>r > 1\<close> is \<open>f32_unit < f32_num r\<close>.
\<close>

lemma checkSampleRate_num:
  "checkSampleRate r =
     (if \<not> f32_isNaN r \<and> (f32_num r < 0 \<or> f32_unit < f32_num r) then Some ErrInvalidSampleRate else None)"
  by (simp add: checkSampleRate_def f32_lt_def f32_num_zero f32_num_one f32_zero_not_NaN f32_one_not_NaN)

lemma checkCount_sint: "checkCount c = (if sint c \<le> 0 then Some ErrInvalidCount else None)"
  by (simp add: checkCount_def word_sle_eq)

lemma sint_neg_pos:
  fixes cnt :: int64
  assumes "0 < sint cnt"
  shows "sint (- cnt) = - sint cnt"
proof -
  have u: "sint cnt < 2 ^ 63" using sint_lt [of cnt] by simp
  show ?thesis
    using assms u by (simp add: sint_word_ariths signed_take_bit_int_eq_self)
qed

lemma dec_pos_nonempty: "dec_pos n \<noteq> []"
  by (subst dec_pos.simps) simp

lemma length_dec6: "length (dec6 n) = 6"
  by (simp add: dec6_def)

lemma digit_in: "digit d \<in> set ''0123456789''"
proof -
  have "nat (d mod 10) < 10" by simp
  then have "nat (d mod 10) < length ''0123456789''" by simp
  then show ?thesis unfolding digit_def by (rule nth_mem)
qed

lemma dec6_digits: "set (dec6 n) \<subseteq> set ''0123456789''"
  using digit_in by (auto simp: dec6_def)

lemma fmt_f32_finite:
  assumes "\<not> f32_isNaN r" and "\<not> f32_isInf r"
  shows "\<exists>ip x. ip \<noteq> [] \<and> fmt_f32 r = ip @ ''.'' @ dec6 x"
proof -
  let ?q = "round_half_even (f32_mag r * 10 ^ 6) (2 ^ 149)"
  let ?ip = "(if f32_sign r then ''-'' else '''') @ dec_pos (?q div 10 ^ 6)"
  have "fmt_f32 r = ?ip @ ''.'' @ dec6 (?q mod 10 ^ 6)"
    using assms by (simp add: fmt_f32_def Let_def)
  moreover have "?ip \<noteq> []" using dec_pos_nonempty by simp
  ultimately show ?thesis by blast
qed

text \<open>A finite rate is rendered with a point followed by exactly six digits.\<close>

lemma six_decimals:
  assumes "\<not> f32_isNaN r" and "\<not> f32_isInf r"
  shows "7 < length (fmt_f32 r) \<and> fmt_f32 r ! (length (fmt_f32 r) - 7) = CHR ''.''
         \<and> set (drop (length (fmt_f32 r) - 6) (fmt_f32 r)) \<subseteq> set ''0123456789''"
proof -
  obtain ip x where ip: "ip \<noteq> []" and f: "fmt_f32 r = ip @ ''.'' @ dec6 x"
    using fmt_f32_finite [OF assms] by blast
  have l: "length (fmt_f32 r) = length ip + 7" by (simp add: f length_dec6)
  have 1: "7 < length (fmt_f32 r)" using ip l by (cases ip) auto
  have 2: "fmt_f32 r ! (length (fmt_f32 r) - 7) = CHR ''.''"
    by (simp add: l) (simp add: f)
  have "drop (length (fmt_f32 r) - 6) (fmt_f32 r) = dec6 x"
    by (simp add: l) (simp add: f)
  then have 3: "set (drop (length (fmt_f32 r) - 6) (fmt_f32 r)) \<subseteq> set ''0123456789''"
    using dec6_digits by simp
  show ?thesis using 1 2 3 by blast
qed

text \<open>Every rate that passes \<open>checkSampleRate\<close> and fires is finite.\<close>

lemma Inf_invalid:
  assumes "f32_isInf r"
  shows "checkSampleRate r = Some ErrInvalidSampleRate"
proof -
  have n: "\<not> f32_isNaN r" using assms by (simp add: f32_isInf_def f32_isNaN_def)
  have m: "f32_mag r = 2 ^ 23 * 2 ^ 254" using assms by (simp add: f32_isInf_def f32_mag_def)
  have "f32_num r < 0 \<or> f32_unit < f32_num r"
    by (simp add: f32_num_def m f32_unit_def)
  then show ?thesis using n by (simp add: checkSampleRate_num)
qed

lemma NaN_never_fires: "f32_isNaN r \<Longrightarrow> \<not> fst (shouldFire r g)"
  by (simp add: shouldFire_def f32_eq_def f32_le_def Float32_def)

lemma fired_rate_finite:
  "checkSampleRate r = None \<Longrightarrow> fst (shouldFire r g) \<Longrightarrow> \<not> f32_isNaN r \<and> \<not> f32_isInf r"
  using Inf_invalid NaN_never_fires by fastforce

section \<open>Facts about the client\<close>

lemma send_c_connected:
  "conn c = Some k \<Longrightarrow>
   send_c F c stat v t r =
     ((if wfail k (length (writes k)) then Some ErrNet else None),
      c\<lparr>conn := Some (k\<lparr>writes := writes k @ [spec_encode F (prefix c) stat v t r]\<rparr>)\<rparr>)"
  by (simp add: send_c_def conn_Write_def spec_encode_def)

lemma send_c_unconnected: "conn c = None \<Longrightarrow> send_c F c stat v t r = (Some ErrNotConnected, c)"
  by (simp add: send_c_def)

lemma send_c_buffer: "buffer (snd (send_c F c stat v t r)) = buffer c"
  by (simp add: send_c_def conn_Write_def split: option.splits)

lemma reset_line:
  "spec_encode F p stat (VInt 0) ''g'' f32_one
     = (if p \<noteq> '''' then p @ ''.'' @ stat else stat) @ '':0|g|@1.000000''"
  by (simp add: spec_encode_def fmt_v_def dec_int_0 fmt_f32_one)

lemma addToBuffer_conn: "conn (addToBuffer c s n) = conn c"
  by (simp add: addToBuffer_def split: option.splits)

lemma addToBuffer_prefix: "prefix (addToBuffer c s n) = prefix c"
  by (simp add: addToBuffer_def split: option.splits)

lemma addToBuffer_empty: "buffer c = [] \<Longrightarrow> buffer (addToBuffer c s n) = [\<lparr>name = s, count = n\<rparr>]"
  by (simp add: addToBuffer_def)

text \<open>Every client \<open>newClient\<close> returns holds a connection and an empty buffer.\<close>

lemma newClient_connected:
  "newClient d a p = Some c \<Longrightarrow> conn c \<noteq> None \<and> buffer c = [] \<and> prefix c = TrimRight_dot p"
  by (auto simp: newClient_def Let_def split: option.splits)

lemma flush_send_connected:
  "conn c = Some k \<Longrightarrow>
   flush_send F bs c =
     c\<lparr>conn := Some (k\<lparr>writes := writes k @
          map (\<lambda>b. spec_encode F (prefix c) (name b) (VInt64 (count b)) ''c'' f32_one) bs\<rparr>)\<rparr>"
proof (induction bs arbitrary: c k)
  case Nil
  then show ?case by simp
next
  case (Cons b bs)
  let ?k1 = "k\<lparr>writes := writes k @ [spec_encode F (prefix c) (name b) (VInt64 (count b)) ''c'' f32_one]\<rparr>"
  have 1: "snd (send_c F c (name b) (VInt64 (count b)) ''c'' f32_one) = c\<lparr>conn := Some ?k1\<rparr>"
    using Cons.prems by (simp add: send_c_connected)
  have 2: "conn (c\<lparr>conn := Some ?k1\<rparr>) = Some ?k1" by simp
  show ?case
    by (simp add: 1 Cons.IH [OF 2])
qed

lemma flush_step_connected:
  assumes k: "conn c = Some k"
  shows "bufferSendLoop_step F c =
     c\<lparr>conn := Some (k\<lparr>writes := writes k @
          map (\<lambda>b. spec_encode F (prefix c) (name b) (VInt64 (count b)) ''c'' f32_one) (buffer c)\<rparr>),
       buffer := []\<rparr>"
proof (cases "buffer c = []")
  case True
  then show ?thesis using k by (simp add: bufferSendLoop_step_def)
next
  case False
  have 1: "conn (c\<lparr>buffer := []\<rparr>) = Some k" using k by simp
  show ?thesis using False
    by (simp add: bufferSendLoop_step_def flush_swap_def flush_send_connected [OF 1])
qed

text \<open>
  What \<open>addToBuffer\<close> does to the pending counts: a new name gets the delta, a name
  already pending gets one more whatever the delta, and the other names keep theirs.
\<close>

lemma bump_first_pending:
  "pending s (case bump_first stat bs of Some bs' \<Rightarrow> bs' | None \<Rightarrow> bs @ [\<lparr>name = stat, count = d\<rparr>])
     = (if s = stat then (case pending stat bs of None \<Rightarrow> Some d | Some n \<Rightarrow> Some (n + 1))
        else pending s bs)"
proof (induction bs)
  case Nil
  then show ?case by (simp add: pending_def)
next
  case (Cons b bs)
  then show ?case
    by (cases "bump_first stat bs") (auto simp: pending_def)
qed

lemma addToBuffer_pending:
  "pending s (buffer (addToBuffer c stat d))
     = (if s = stat then (case pending stat (buffer c) of None \<Rightarrow> Some d | Some n \<Rightarrow> Some (n + 1))
        else pending s (buffer c))"
  using bump_first_pending [where s = s and stat = stat and bs = "buffer c" and d = d]
  by (cases "bump_first stat (buffer c)") (simp_all add: addToBuffer_def)

text \<open>No method takes the connection away from a client that holds one.\<close>

lemma connected_kept:
  assumes "conn c \<noteq> None"
  shows "conn (snd (send_c F c stat v t r)) \<noteq> None"
    and "conn (addToBuffer c stat n) \<noteq> None"
    and "conn (bufferSendLoop_step F c) \<noteq> None"
    and "conn (fst (snd (IncrWithSampling_c c stat n r g))) \<noteq> None"
    and "conn (fst (snd (DecrWithSampling F c stat n r g))) \<noteq> None"
    and "conn (fst (snd (TimingWithSampling_c F c stat n r g))) \<noteq> None"
    and "conn (fst (snd (GaugeWithSampling_c F c stat n r g))) \<noteq> None"
    and "conn (fst (snd (FGaugeWithSampling_c F c stat x r g))) \<noteq> None"
proof -
  obtain k where k: "conn c = Some k" using assms by auto
  have 1: "conn (snd (send_c F c stat v t r)) \<noteq> None" for stat v t r
    by (simp add: send_c_def conn_Write_def k)
  show "conn (snd (send_c F c stat v t r)) \<noteq> None" by (rule 1)
  show "conn (addToBuffer c stat n) \<noteq> None"
    using assms by (simp add: addToBuffer_def split: option.splits)
  show "conn (bufferSendLoop_step F c) \<noteq> None"
    by (simp add: flush_step_connected [OF k])
  show "conn (fst (snd (IncrWithSampling_c c stat n r g))) \<noteq> None"
    using assms
    by (auto simp: IncrWithSampling_c_def addToBuffer_def Let_def split: option.splits prod.splits)
  show "conn (fst (snd (DecrWithSampling F c stat n r g))) \<noteq> None"
    using assms 1 [of stat "VInt64 (- n)" "''c''" r]
    by (auto simp: DecrWithSampling_def Let_def split: option.splits prod.splits)
  show "conn (fst (snd (TimingWithSampling_c F c stat n r g))) \<noteq> None"
    using assms 1 [of stat "VInt64 n" "''ms''" r]
    by (auto simp: TimingWithSampling_c_def Let_def split: option.splits prod.splits)
  have 2: "conn (snd (send_c F (snd (send_c F c stat v0 ''g'' f32_one)) stat v ''g'' r)) \<noteq> None" for v0 v
    by (simp add: send_c_def conn_Write_def k)
  show "conn (fst (snd (GaugeWithSampling_c F c stat n r g))) \<noteq> None"
    using assms 1 [of stat "VInt64 n" "''g''" r] 2 [of "VInt 0" "VInt64 n"]
    by (auto simp: GaugeWithSampling_c_def Let_def split: option.splits prod.splits)
  show "conn (fst (snd (FGaugeWithSampling_c F c stat x r g))) \<noteq> None"
    using assms 1 [of stat "VFloat64 x" "''g''" r] 2 [of "VInt 0" "VFloat64 x"]
    by (auto simp: FGaugeWithSampling_c_def Let_def split: option.splits prod.splits)
qed

text \<open>The line of a counter at rate 1.\<close>

lemma counter_line:
  "spec_encode F p stat (VInt64 n) ''c'' f32_one
     = (if p \<noteq> '''' then p @ ''.'' @ stat else stat) @ '':'' @ dec_int (sint n) @ ''|c|@1.000000''"
  by (simp add: spec_encode_def fmt_v_def fmt_f32_one)

section \<open>Facts about the package\<close>

lemma getClient_keeps:
  "sendCh (snd (getClient w)) = sendCh w \<and> sendLoopOnce (snd (getClient w)) = sendLoopOnce w"
  by (simp add: getClient_def Let_def split: option.splits)

text \<open>\<open>getClient\<close> panics only on its first call, with no configuration or with a dial error.\<close>

lemma getClient_panics:
  "fst (getClient w) = Some y \<Longrightarrow>
     \<not> once w \<and> (case config w of None \<Rightarrow> y = NilDeref
                  | Some cfg \<Rightarrow> y = DialPanic \<and> dial w (pkg_addr w) = None)"
  by (auto simp: getClient_def newClient_def Let_def split: option.splits if_splits)

lemma getClient_ok:
  "once w \<or> (config w \<noteq> None \<and> dial w (pkg_addr w) \<noteq> None) \<Longrightarrow> fst (getClient w) = None"
  by (auto simp: getClient_def newClient_def Let_def split: option.splits if_splits)

lemma pkg_off_eq:
  "pkg_off = pkg0\<lparr>config := Some (config0\<lparr>Enable := False, SampleRate := f32_one\<rparr>),
                  pkg_addr := ''127.0.0.1:8125''\<rparr>"
proof -
  have z: "f32_eq 0 f32_zero" by code_simp
  have d: "dec_int 8125 = ''8125''" by code_simp
  show ?thesis
    by (simp add: pkg_off_def Setup_def config0_def z d defaultSampleRate_def pkg0_def)
qed

lemma pkg_on_eq:
  "pkg_on = pkg0\<lparr>config := Some (config0\<lparr>SampleRate := f32_one\<rparr>), pkg_addr := ''127.0.0.1:8125''\<rparr>"
proof -
  have z: "f32_eq 0 f32_zero" by code_simp
  have d: "dec_int 8125 = ''8125''" by code_simp
  show ?thesis
    by (simp add: pkg_on_def Setup_def config0_def z d defaultSampleRate_def pkg0_def)
qed

lemma newClient_app: "newClient (\<lambda>a. Some conn0) ''127.0.0.1:8125'' ''app.'' = Some client0"
  by (simp add: newClient_def TrimRight_dot_def client0_def)

text \<open>
  The functions that test both \<open>config\<close> and \<open>Enable\<close> do nothing before \<open>Setup\<close> and
  while disabled.
\<close>

lemma gated_functions_noop:
  assumes "config w = None \<or> (\<exists>cfg. config w = Some cfg \<and> \<not> Enable cfg)"
  shows "IncrWithSampling w s v r = (None, w) \<and> GaugeWithSampling w s v r = (None, w)
       \<and> Gauge w s v = (None, w) \<and> FGaugeWithSampling w s x r = (None, w) \<and> FGauge w s x = (None, w)
       \<and> TimingByValueWithSampling w s v r = (None, w) \<and> TimingByValue w s v = (None, w)
       \<and> TimingWithSampling w s t1 t2 r = (None, w) \<and> Timing w s t1 t2 = (None, w)"
  using assms
  by (auto simp: IncrWithSampling_def GaugeWithSampling_def Gauge_def FGaugeWithSampling_def FGauge_def
      TimingByValueWithSampling_def TimingByValue_def TimingWithSampling_def Timing_def)

lemma IncrByVal_unset_noop: "config w = None \<Longrightarrow> IncrByVal w s v = (None, w)"
  by (simp add: IncrByVal_def)

section \<open>The claims\<close>

text \<open>
  C1. The claim: every public emission function is a no-op before \<open>Setup\<close> and while
  \<open>Config.Enable\<close> is false. \<open>Incr\<close> tests neither and \<open>IncrByVal\<close> tests only
  \<open>config\<close>, while the other functions test both (\<open>gated_functions_noop\<close>). Run on
  the code: before \<open>Setup\<close>, \<open>Incr\<close> panics on the nil \<open>config\<close> inside
  \<open>getClient\<close>; with \<open>Enable\<close> false, \<open>Incr\<close> and \<open>IncrByVal\<close> build the client
  and leave a bucket in its buffer, which the next tick writes to the network.
\<close>

theorem Incr_ignores_config:
  "Incr pkg0 ''x'' = (Some NilDeref, pkg0\<lparr>once := True\<rparr>)
   \<and> Incr pkg_off ''x''
       = (None, pkg_off\<lparr>once := True, defaultClient := Some (client0\<lparr>buffer := [\<lparr>name = ''x'', count = 1\<rparr>]\<rparr>)\<rparr>)
   \<and> IncrByVal pkg_off ''x'' 5
       = (None, pkg_off\<lparr>once := True, defaultClient := Some (client0\<lparr>buffer := [\<lparr>name = ''x'', count = 5\<rparr>]\<rparr>)\<rparr>)
   \<and> map_option writes (conn (bufferSendLoop_step F (client0\<lparr>buffer := [\<lparr>name = ''x'', count = 1\<rparr>]\<rparr>)))
       = Some [''app.x:1|c|@1.000000'']"
proof -
  have a: "Incr pkg0 ''x'' = (Some NilDeref, pkg0\<lparr>once := True\<rparr>)"
    by (simp add: Incr_def getClient_IncrWithSampling_def getClient_def pkg0_def)
  have g: "getClient pkg_off = (None, pkg_off\<lparr>once := True, defaultClient := Some client0\<rparr>)"
    by (simp add: pkg_off_eq getClient_def pkg0_def config0_def newClient_app)
  have c5: "checkCount 5 = None" by code_simp
  have i1: "IncrWithSampling_c client0 ''x'' 1 f32_one rng0
              = (None, client0\<lparr>buffer := [\<lparr>name = ''x'', count = 1\<rparr>]\<rparr>, rng0)"
    by (simp add: IncrWithSampling_c_def checkSampleRate_one shouldFire_one checkCount_one
        addToBuffer_def client0_def)
  have i5: "IncrWithSampling_c client0 ''x'' 5 f32_one rng0
              = (None, client0\<lparr>buffer := [\<lparr>name = ''x'', count = 5\<rparr>]\<rparr>, rng0)"
    by (simp add: IncrWithSampling_c_def checkSampleRate_one shouldFire_one c5
        addToBuffer_def client0_def)
  have r: "fireRand pkg_off = rng0" by (simp add: pkg_off_eq pkg0_def)
  have cf: "config pkg_off = Some (config0\<lparr>Enable := False, SampleRate := f32_one\<rparr>)"
    by (simp add: pkg_off_eq)
  have b: "Incr pkg_off ''x''
       = (None, pkg_off\<lparr>once := True, defaultClient := Some (client0\<lparr>buffer := [\<lparr>name = ''x'', count = 1\<rparr>]\<rparr>)\<rparr>)"
    by (simp add: Incr_def getClient_IncrWithSampling_def g IncrWithSampling_p_def r i1)
  have c: "IncrByVal pkg_off ''x'' 5
       = (None, pkg_off\<lparr>once := True, defaultClient := Some (client0\<lparr>buffer := [\<lparr>name = ''x'', count = 5\<rparr>]\<rparr>)\<rparr>)"
    by (simp add: IncrByVal_def cf getClient_IncrWithSampling_def g IncrWithSampling_p_def r i5)
  have k: "conn (client0\<lparr>buffer := [\<lparr>name = ''x'', count = 1\<rparr>]\<rparr>) = Some conn0"
    by (simp add: client0_def)
  have d1: "dec_int 1 = ''1''" by code_simp
  have d: "map_option writes (conn (bufferSendLoop_step F (client0\<lparr>buffer := [\<lparr>name = ''x'', count = 1\<rparr>]\<rparr>)))
       = Some [''app.x:1|c|@1.000000'']"
    by (simp add: flush_step_connected [OF k] spec_encode_def fmt_v_def d1 fmt_f32_one)
      (simp add: client0_def conn0_def)
  show ?thesis using a b c d by simp
qed

text \<open>
  C2. The claim: the bucket of a name holds the sum of the deltas added since the last
  flush. \<open>addToBuffer\<close> stores the delta of the first add and then does \<open>count++\<close>
  on every later one, whatever its delta. Run on the code: \<open>add(a, 5)\<close> followed by
  \<open>add(a, 3)\<close> leaves 6 in the bucket, and the tick writes 6, while the deltas sum to 8.
\<close>

theorem addToBuffer_second_add_counts_one:
  "buffer (addToBuffer (addToBuffer client0 ''a'' 5) ''a'' 3) = [\<lparr>name = ''a'', count = 6\<rparr>]
   \<and> map_option writes (conn (bufferSendLoop_step F (addToBuffer (addToBuffer client0 ''a'' 5) ''a'' 3)))
        = Some [''app.a:6|c|@1.000000'']"
proof -
  have a: "buffer (addToBuffer (addToBuffer client0 ''a'' 5) ''a'' 3) = [\<lparr>name = ''a'', count = 6\<rparr>]"
    by (simp add: addToBuffer_def client0_def)
  have k: "conn (addToBuffer (addToBuffer client0 ''a'' 5) ''a'' 3) = Some conn0"
    by (simp add: addToBuffer_conn client0_def)
  have p: "prefix (addToBuffer (addToBuffer client0 ''a'' 5) ''a'' 3) = ''app''"
    by (simp add: addToBuffer_prefix client0_def)
  have d: "dec_int 6 = ''6''" by code_simp
  show ?thesis
    by (simp add: a flush_step_connected [OF k] p spec_encode_def fmt_v_def d fmt_f32_one conn0_def)
qed

text \<open>
  C3. On a client that holds a connection, \<open>GaugeWithSampling\<close> and
  \<open>FGaugeWithSampling\<close>, called with a valid sample rate that fires and a value below
  zero, hand exactly two lines to the connection, in this order: the reset line, with
  value 0, type tag \<open>g\<close> and rate 1 (it ends in \<open>:0|g|@1.000000\<close>), then the line with
  the negative value at the caller's rate.
\<close>

theorem negative_gauge_two_lines:
  assumes "checkSampleRate r = None" and "fst (shouldFire r g)" and "conn c = Some k"
  shows "(sint v < 0 \<longrightarrow>
            conn (fst (snd (GaugeWithSampling_c F c stat v r g)))
              = Some (k\<lparr>writes := writes k @ [spec_encode F (prefix c) stat (VInt 0) ''g'' f32_one,
                                               spec_encode F (prefix c) stat (VInt64 v) ''g'' r]\<rparr>))
       \<and> (f64_lt_zero x \<longrightarrow>
            conn (fst (snd (FGaugeWithSampling_c F c stat x r g)))
              = Some (k\<lparr>writes := writes k @ [spec_encode F (prefix c) stat (VInt 0) ''g'' f32_one,
                                               spec_encode F (prefix c) stat (VFloat64 x) ''g'' r]\<rparr>))
       \<and> spec_encode F (prefix c) stat (VInt 0) ''g'' f32_one
            = (if prefix c \<noteq> '''' then prefix c @ ''.'' @ stat else stat) @ '':0|g|@1.000000''"
proof -
  let ?k1 = "k\<lparr>writes := writes k @ [spec_encode F (prefix c) stat (VInt 0) ''g'' f32_one]\<rparr>"
  have 1: "snd (send_c F c stat (VInt 0) ''g'' f32_one) = c\<lparr>conn := Some ?k1\<rparr>"
    using assms(3) by (simp add: send_c_connected)
  have 2: "conn (c\<lparr>conn := Some ?k1\<rparr>) = Some ?k1"
    by simp
  obtain g' where sf: "shouldFire r g = (True, g')"
    using assms(2) by (cases "shouldFire r g") auto
  have a: "conn (fst (snd (GaugeWithSampling_c F c stat v r g)))
              = Some (k\<lparr>writes := writes k @ [spec_encode F (prefix c) stat (VInt 0) ''g'' f32_one,
                                               spec_encode F (prefix c) stat (VInt64 v) ''g'' r]\<rparr>)"
    if "sint v < 0"
    using that assms(1)
    by (simp add: GaugeWithSampling_c_def sf 1 send_c_connected [OF 2] word_sless_alt)
  have b: "conn (fst (snd (FGaugeWithSampling_c F c stat x r g)))
              = Some (k\<lparr>writes := writes k @ [spec_encode F (prefix c) stat (VInt 0) ''g'' f32_one,
                                               spec_encode F (prefix c) stat (VFloat64 x) ''g'' r]\<rparr>)"
    if "f64_lt_zero x"
    using that assms(1)
    by (simp add: FGaugeWithSampling_c_def sf 1 send_c_connected [OF 2])
  show ?thesis using a b reset_line [of F "prefix c" stat] by blast
qed

theorem negative_gauge_two_lines_witness:
  "map_option writes (conn (fst (snd (GaugeWithSampling_c fmtF0 client0 ''cpu'' (- 3) f32_one rng0))))
     = Some [''app.cpu:0|g|@1.000000'', ''app.cpu:-3|g|@1.000000'']
   \<and> map_option writes (conn (fst (snd (FGaugeWithSampling_c fmtF0 client0 ''cpu'' 0xC008000000000000 f32_one rng0))))
     = Some [''app.cpu:0|g|@1.000000'', ''app.cpu:-3|g|@1.000000'']"
proof -
  have h2: "fst (shouldFire f32_one rng0)" by (simp add: shouldFire_one)
  have h3: "conn client0 = Some conn0" by (simp add: client0_def)
  have h4: "sint (- 3 :: int64) < 0" by simp
  have h5: "f64_lt_zero 0xC008000000000000" by code_simp
  have d: "dec_int (- 3) = ''-3''" by code_simp
  have p: "prefix client0 = ''app''" by (simp add: client0_def)
  note t = negative_gauge_two_lines [OF checkSampleRate_one h2 h3,
      where v = "- 3" and x = "0xC008000000000000" and F = fmtF0 and stat = "''cpu''"]
  show ?thesis using t h4 h5
    by (simp add: p spec_encode_def fmt_v_def fmtF0_def fmt_f32_one d dec_int_0 conn0_def)
qed

text \<open>
  C4. On a client that holds a connection, \<open>send\<close> hands to it exactly one line, the
  spec's \<open><prefix>.<stat>:<value>|<typeTag>|@<sampleRate>\<close> for a non-empty prefix and
  \<open><stat>:<value>|<typeTag>|@<sampleRate>\<close> otherwise; a finite sample rate is rendered
  with a point and six digits after it; and prefix \<open>app\<close>, stat \<open>user.login.count\<close>,
  value 5, type \<open>c\<close>, rate 1 give \<open>app.user.login.count:5|c|@1.000000\<close>.
\<close>

theorem send_c_wire_format:
  "(conn c = Some k \<longrightarrow>
      send_c F c stat v t r =
        ((if wfail k (length (writes k)) then Some ErrNet else None),
         c\<lparr>conn := Some (k\<lparr>writes := writes k @
            [if prefix c \<noteq> '''' then prefix c @ ''.'' @ stat @ '':'' @ fmt_v F v @ ''|'' @ t @ ''|@'' @ fmt_f32 r
             else stat @ '':'' @ fmt_v F v @ ''|'' @ t @ ''|@'' @ fmt_f32 r]\<rparr>)\<rparr>))
   \<and> (\<not> f32_isNaN r \<and> \<not> f32_isInf r \<longrightarrow>
        7 < length (fmt_f32 r) \<and> fmt_f32 r ! (length (fmt_f32 r) - 7) = CHR ''.''
        \<and> set (drop (length (fmt_f32 r) - 6) (fmt_f32 r)) \<subseteq> set ''0123456789'')
   \<and> spec_encode F ''app'' ''user.login.count'' (VInt64 5) ''c'' f32_one = ''app.user.login.count:5|c|@1.000000''
   \<and> map_option writes (conn (snd (send_c F client0 ''user.login.count'' (VInt64 5) ''c'' f32_one)))
        = Some [''app.user.login.count:5|c|@1.000000'']"
proof -
  have d: "dec_int 5 = ''5''" by code_simp
  have k: "conn client0 = Some conn0" by (simp add: client0_def)
  have s: "spec_encode F ''app'' ''user.login.count'' (VInt64 5) ''c'' f32_one
             = ''app.user.login.count:5|c|@1.000000''"
    by (simp add: spec_encode_def fmt_v_def d fmt_f32_one)
  have p: "prefix client0 = ''app''" by (simp add: client0_def)
  have e: "map_option writes (conn (snd (send_c F client0 ''user.login.count'' (VInt64 5) ''c'' f32_one)))
        = Some [''app.user.login.count:5|c|@1.000000'']"
    by (simp add: send_c_connected [OF k] p s) (simp add: conn0_def)
  have f: "conn c = Some k \<longrightarrow>
      send_c F c stat v t r =
        ((if wfail k (length (writes k)) then Some ErrNet else None),
         c\<lparr>conn := Some (k\<lparr>writes := writes k @
            [if prefix c \<noteq> '''' then prefix c @ ''.'' @ stat @ '':'' @ fmt_v F v @ ''|'' @ t @ ''|@'' @ fmt_f32 r
             else stat @ '':'' @ fmt_v F v @ ''|'' @ t @ ''|@'' @ fmt_f32 r]\<rparr>)\<rparr>)"
    by (simp add: send_c_connected spec_encode_def)
  show ?thesis using e f s six_decimals [of r] by blast
qed

theorem send_c_wire_format_witness:
  "send_c fmtF0 (client0\<lparr>prefix := ''''\<rparr>) ''order.place.timing'' (VInt64 250) ''ms'' 0x3F000000
     = (None, client0\<lparr>prefix := '''', conn := Some (conn0\<lparr>writes := [''order.place.timing:250|ms|@0.500000'']\<rparr>)\<rparr>)
   \<and> fmt_f32 0x3F000000 ! (length (fmt_f32 0x3F000000) - 7) = CHR ''.''"
proof -
  have k: "conn (client0\<lparr>prefix := ''''\<rparr>) = Some conn0" by (simp add: client0_def)
  have d: "dec_int 250 = ''250''" by code_simp
  have h: "fmt_f32 0x3F000000 = ''0.500000''" by code_simp
  have n: "\<not> f32_isNaN 0x3F000000 \<and> \<not> f32_isInf 0x3F000000" by code_simp
  note t = send_c_wire_format [where c = "client0\<lparr>prefix := ''''\<rparr>" and k = conn0 and F = fmtF0
      and stat = "''order.place.timing''" and v = "VInt64 250" and t = "''ms''" and r = "0x3F000000"]
  have 1: "send_c fmtF0 (client0\<lparr>prefix := ''''\<rparr>) ''order.place.timing'' (VInt64 250) ''ms'' 0x3F000000
     = (None, client0\<lparr>prefix := '''', conn := Some (conn0\<lparr>writes := [''order.place.timing:250|ms|@0.500000'']\<rparr>)\<rparr>)"
    using t k by (simp add: fmt_v_def d h) (simp add: client0_def conn0_def)
  have 2: "fmt_f32 0x3F000000 ! (length (fmt_f32 0x3F000000) - 7) = CHR ''.''"
    using t n by blast
  show ?thesis using 1 2 by blast
qed

text \<open>
  C5. One tick of \<open>bufferSendLoop\<close> on a client that holds a connection: the locked
  section takes the whole bucket set and leaves the empty one; the loop after it hands
  one line per taken bucket to the connection, in order, with type tag \<open>c\<close> and rate
  1; the buffer is empty after the tick. No bucket is sent twice: a second tick right
  after sends nothing. None is lost: an add that arrives between the swap and the sends
  stays in the buffer, and the next tick sends it.
\<close>

theorem bufferSendLoop_step_flushes_once:
  assumes k: "conn c = Some k"
  shows "fst (flush_swap c) = buffer c \<and> buffer (snd (flush_swap c)) = []
   \<and> buffer (bufferSendLoop_step F c) = []
   \<and> conn (bufferSendLoop_step F c) =
        Some (k\<lparr>writes := writes k @
          map (\<lambda>b. spec_encode F (prefix c) (name b) (VInt64 (count b)) ''c'' f32_one) (buffer c)\<rparr>)
   \<and> bufferSendLoop_step F (bufferSendLoop_step F c) = bufferSendLoop_step F c
   \<and> buffer (flush_send F (fst (flush_swap c)) (addToBuffer (snd (flush_swap c)) s n)) = [\<lparr>name = s, count = n\<rparr>]
   \<and> conn (flush_send F (fst (flush_swap c)) (addToBuffer (snd (flush_swap c)) s n)) =
        Some (k\<lparr>writes := writes k @
          map (\<lambda>b. spec_encode F (prefix c) (name b) (VInt64 (count b)) ''c'' f32_one) (buffer c)\<rparr>)
   \<and> conn (bufferSendLoop_step F (addToBuffer (bufferSendLoop_step F c) s n)) =
        Some (k\<lparr>writes := writes k @
          map (\<lambda>b. spec_encode F (prefix c) (name b) (VInt64 (count b)) ''c'' f32_one) (buffer c)
          @ [spec_encode F (prefix c) s (VInt64 n) ''c'' f32_one]\<rparr>)
   \<and> spec_encode F (prefix c) s (VInt64 n) ''c'' f32_one
        = (if prefix c \<noteq> '''' then prefix c @ ''.'' @ s else s) @ '':'' @ dec_int (sint n) @ ''|c|@1.000000''"
proof -
  let ?L ="map (\<lambda>b. spec_encode F (prefix c) (name b) (VInt64 (count b)) ''c'' f32_one) (buffer c)"
  let ?k1 = "k\<lparr>writes := writes k @ ?L\<rparr>"
  have st: "bufferSendLoop_step F c = c\<lparr>conn := Some ?k1, buffer := []\<rparr>"
    by (rule flush_step_connected [OF k])
  have a: "fst (flush_swap c) = buffer c \<and> buffer (snd (flush_swap c)) = []"
    by (simp add: flush_swap_def)
  have b: "buffer (bufferSendLoop_step F c) = []" by (simp add: st)
  have c: "conn (bufferSendLoop_step F c) = Some ?k1" by (simp add: st)
  have d: "bufferSendLoop_step F (bufferSendLoop_step F c) = bufferSendLoop_step F c"
    using b by (subst (1) bufferSendLoop_step_def) simp
  let ?c2 = "addToBuffer (snd (flush_swap c)) s n"
  have c2k: "conn ?c2 = Some k" by (simp add: addToBuffer_conn flush_swap_def k)
  have c2b: "buffer ?c2 = [\<lparr>name = s, count = n\<rparr>]"
    by (rule addToBuffer_empty) (simp add: flush_swap_def)
  have c2p: "prefix ?c2 = prefix c" by (simp add: addToBuffer_prefix flush_swap_def)
  have e: "buffer (flush_send F (fst (flush_swap c)) ?c2) = [\<lparr>name = s, count = n\<rparr>]"
    by (simp add: flush_send_connected [OF c2k] c2b)
  have f: "conn (flush_send F (fst (flush_swap c)) ?c2) = Some ?k1"
    by (simp add: flush_send_connected [OF c2k] c2p) (simp add: flush_swap_def)
  let ?c3 = "addToBuffer (bufferSendLoop_step F c) s n"
  have c3k: "conn ?c3 = Some ?k1" by (simp add: addToBuffer_conn c)
  have c3b: "buffer ?c3 = [\<lparr>name = s, count = n\<rparr>]"
    by (rule addToBuffer_empty) (rule b)
  have c3p: "prefix ?c3 = prefix c" by (simp add: addToBuffer_prefix st)
  have g: "conn (bufferSendLoop_step F ?c3) =
        Some (k\<lparr>writes := writes k @ ?L @ [spec_encode F (prefix c) s (VInt64 n) ''c'' f32_one]\<rparr>)"
    by (simp add: flush_step_connected [OF c3k] c3b c3p)
  show ?thesis using a b c d e f g counter_line [of F "prefix c" s n] by simp
qed

theorem bufferSendLoop_step_flushes_once_witness:
  "buffer (bufferSendLoop_step fmtF0 (client0\<lparr>buffer := [\<lparr>name = ''a'', count = 2\<rparr>, \<lparr>name = ''b'', count = 7\<rparr>]\<rparr>)) = []
   \<and> map_option writes (conn (bufferSendLoop_step fmtF0
        (client0\<lparr>buffer := [\<lparr>name = ''a'', count = 2\<rparr>, \<lparr>name = ''b'', count = 7\<rparr>]\<rparr>)))
      = Some [''app.a:2|c|@1.000000'', ''app.b:7|c|@1.000000'']"
proof -
  let ?c = "client0\<lparr>buffer := [\<lparr>name = ''a'', count = 2\<rparr>, \<lparr>name = ''b'', count = 7\<rparr>]\<rparr>"
  have k: "conn ?c = Some conn0" by (simp add: client0_def)
  have p: "prefix ?c = ''app''" by (simp add: client0_def)
  have d2: "dec_int 2 = ''2''" by code_simp
  have d7: "dec_int 7 = ''7''" by code_simp
  note t = bufferSendLoop_step_flushes_once [OF k, where F = fmtF0]
  show ?thesis using t
    by (simp add: p spec_encode_def fmt_v_def d2 d7 fmt_f32_one conn0_def)
qed

text \<open>
  C6. \<open>sendAsync\<close> is a total function: every call ends, with a state. The channel it
  leaves holds what it held before, with the new item behind it exactly when the call
  returned normally and fewer than 1024 items were queued; a full queue stays as it is
  and the item is dropped. The call returns normally whenever \<open>sendLoopOnce\<close> or
  \<open>once\<close> has fired, or \<open>Setup\<close> was called and the dial succeeds; the one other
  outcome is the panic of the first call while it builds the client. The hypothesis is
  the state the first call leaves: once \<open>sendLoopOnce\<close> has fired, the channel exists.
\<close>

theorem sendAsync_bounded_queue:
  assumes inv: "sendLoopOnce w \<longrightarrow> sendCh w \<noteq> None"
  shows "sendCh (snd (sendAsync w stat v t r)) =
           Some (if fst (sendAsync w stat v t r) = None \<and> length (queue w) < 1024
                 then queue w @ [\<lparr>it_stat = stat, it_val = v, it_t = t, it_sampleRate = r\<rparr>]
                 else queue w)
         \<and> (sendLoopOnce w \<or> once w \<or> (config w \<noteq> None \<and> dial w (pkg_addr w) \<noteq> None)
              \<longrightarrow> fst (sendAsync w stat v t r) = None)
         \<and> sendLoopOnce (snd (sendAsync w stat v t r))"
proof (cases "sendLoopOnce w")
  case True
  then obtain q where q: "sendCh w = Some q" using inv by auto
  show ?thesis using True q by (simp add: sendAsync_def queue_def)
next
  case False
  let ?w0 = "w\<lparr>sendLoopOnce := True, sendCh := (case sendCh w of None \<Rightarrow> Some [] | Some q \<Rightarrow> Some q)\<rparr>"
  obtain y w' where g: "getClient ?w0 = (y, w')" by (cases "getClient ?w0")
  have ch: "sendCh w' = Some (queue w)"
    using getClient_keeps [of ?w0] g by (simp add: queue_def split: option.splits)
  have lo: "sendLoopOnce w'" using getClient_keeps [of ?w0] g by simp
  have ok: "once w \<or> (config w \<noteq> None \<and> dial w (pkg_addr w) \<noteq> None) \<Longrightarrow> y = None"
    using getClient_ok [of ?w0] g by simp
  show ?thesis
  proof (cases y)
    case None
    then show ?thesis using False g ch lo by (simp add: sendAsync_def)
  next
    case (Some z)
    have no: "\<not> (once w \<or> (config w \<noteq> None \<and> dial w (pkg_addr w) \<noteq> None))"
      using ok Some by blast
    have "sendAsync w stat v t r = (Some z, w')"
      using False g Some by (simp add: sendAsync_def)
    then show ?thesis using False ch lo no by simp
  qed
qed

theorem sendAsync_bounded_queue_witness:
  "fst (sendAsync pkg_on ''cpu'' (VInt64 3) metricTypeGauge f32_one) = None
   \<and> sendCh (snd (sendAsync pkg_on ''cpu'' (VInt64 3) metricTypeGauge f32_one))
       = Some [\<lparr>it_stat = ''cpu'', it_val = VInt64 3, it_t = metricTypeGauge, it_sampleRate = f32_one\<rparr>]
   \<and> sendCh (snd (sendAsync
        (pkg_on\<lparr>sendLoopOnce := True,
                sendCh := Some (replicate 1024 \<lparr>it_stat = ''a'', it_val = VInt64 1, it_t = metricTypeGauge,
                                                it_sampleRate = f32_one\<rparr>)\<rparr>)
        ''cpu'' (VInt64 3) metricTypeGauge f32_one))
       = Some (replicate 1024 \<lparr>it_stat = ''a'', it_val = VInt64 1, it_t = metricTypeGauge, it_sampleRate = f32_one\<rparr>)"
proof -
  let ?full = "pkg_on\<lparr>sendLoopOnce := True,
                sendCh := Some (replicate 1024 \<lparr>it_stat = ''a'', it_val = VInt64 1, it_t = metricTypeGauge,
                                                it_sampleRate = f32_one\<rparr>)\<rparr>"
  have i1: "sendLoopOnce pkg_on \<longrightarrow> sendCh pkg_on \<noteq> None"
    by (simp add: pkg_on_eq pkg0_def)
  have c1: "config pkg_on \<noteq> None \<and> dial pkg_on (pkg_addr pkg_on) \<noteq> None"
    by (simp add: pkg_on_eq pkg0_def)
  have q1: "queue pkg_on = []" by (simp add: queue_def pkg_on_eq pkg0_def)
  have i2: "sendLoopOnce ?full \<longrightarrow> sendCh ?full \<noteq> None" by simp
  have q2: "length (queue ?full) = 1024" by (simp add: queue_def)
  have q3: "queue ?full = replicate 1024 \<lparr>it_stat = ''a'', it_val = VInt64 1, it_t = metricTypeGauge,
                                                it_sampleRate = f32_one\<rparr>"
    by (simp add: queue_def)
  note t1 = sendAsync_bounded_queue [OF i1, where stat = "''cpu''" and v = "VInt64 3" and t = metricTypeGauge
      and r = f32_one]
  note t2 = sendAsync_bounded_queue [OF i2, where stat = "''cpu''" and v = "VInt64 3" and t = metricTypeGauge
      and r = f32_one]
  have a: "fst (sendAsync pkg_on ''cpu'' (VInt64 3) metricTypeGauge f32_one) = None"
    using t1 c1 by blast
  have b: "sendCh (snd (sendAsync pkg_on ''cpu'' (VInt64 3) metricTypeGauge f32_one))
       = Some [\<lparr>it_stat = ''cpu'', it_val = VInt64 3, it_t = metricTypeGauge, it_sampleRate = f32_one\<rparr>]"
    using t1 a by (simp add: q1)
  have c: "sendCh (snd (sendAsync ?full ''cpu'' (VInt64 3) metricTypeGauge f32_one))
       = Some (replicate 1024 \<lparr>it_stat = ''a'', it_val = VInt64 1, it_t = metricTypeGauge, it_sampleRate = f32_one\<rparr>)"
    using t2 by (simp add: q2 q3)
  show ?thesis using a b c by blast
qed

text \<open>
  C7. \<open>checkSampleRate r\<close> returns \<open>ErrInvalidSampleRate\<close> exactly when \<open>r\<close> is a
  number below 0 or above 1 (a NaN compares false both times and passes); 1.5 and -0.1
  fail; every \<open>r\<close> from 0 to 1 passes. \<open>checkCount c\<close> returns \<open>ErrInvalidCount\<close> for
  every \<open>c\<close> that is not positive, 0 among them.
\<close>

theorem checkSampleRate_checkCount_bounds:
  "checkSampleRate r =
     (if \<not> f32_isNaN r \<and> (f32_num r < 0 \<or> f32_unit < f32_num r) then Some ErrInvalidSampleRate else None)
   \<and> (checkSampleRate r = Some ErrInvalidSampleRate \<longleftrightarrow> f32_lt r f32_zero \<or> f32_lt f32_one r)
   \<and> (\<not> f32_isNaN r \<and> 0 \<le> f32_num r \<and> f32_num r \<le> f32_unit \<longrightarrow> checkSampleRate r = None)
   \<and> checkSampleRate 0x3FC00000 = Some ErrInvalidSampleRate
   \<and> checkSampleRate 0xBDCCCCCD = Some ErrInvalidSampleRate
   \<and> (sint c \<le> 0 \<longrightarrow> checkCount c = Some ErrInvalidCount)
   \<and> (0 < sint c \<longrightarrow> checkCount c = None)
   \<and> checkCount 0 = Some ErrInvalidCount"
proof -
  have a: "checkSampleRate 0x3FC00000 = Some ErrInvalidSampleRate" by code_simp
  have b: "checkSampleRate 0xBDCCCCCD = Some ErrInvalidSampleRate" by code_simp
  have c: "checkSampleRate r = Some ErrInvalidSampleRate \<longleftrightarrow> f32_lt r f32_zero \<or> f32_lt f32_one r"
    by (simp add: checkSampleRate_def)
  show ?thesis using a b c by (simp add: checkSampleRate_num checkCount_sint)
qed

theorem checkSampleRate_checkCount_bounds_witness:
  "checkSampleRate 0x3F000000 = None \<and> checkSampleRate f32_zero = None \<and> checkSampleRate f32_one = None
   \<and> checkCount (- 4) = Some ErrInvalidCount \<and> checkCount 4 = None"
proof -
  have h: "\<not> f32_isNaN 0x3F000000 \<and> 0 \<le> f32_num 0x3F000000 \<and> f32_num 0x3F000000 \<le> f32_unit"
    by code_simp
  have z: "\<not> f32_isNaN f32_zero \<and> 0 \<le> f32_num f32_zero \<and> f32_num f32_zero \<le> f32_unit"
    by code_simp
  have u: "\<not> f32_isNaN f32_one \<and> 0 \<le> f32_num f32_one \<and> f32_num f32_one \<le> f32_unit"
    by code_simp
  have n: "sint (- 4 :: int64) \<le> 0" by simp
  have p: "0 < sint (4 :: int64)" by simp
  note t1 = checkSampleRate_checkCount_bounds [where r = "0x3F000000" and c = "- 4"]
  note t2 = checkSampleRate_checkCount_bounds [where r = f32_zero and c = 4]
  note t3 = checkSampleRate_checkCount_bounds [where r = f32_one and c = 4]
  show ?thesis using t1 t2 t3 h z u n p by blast
qed

text \<open>
  C8. An item with the empty name, taken from the channel by the worker, is dropped: the
  turn ends without a panic and leaves the package as it was but for the item taken
  from the queue, so the client, its buffer, its connection and the random source are
  untouched; \<open>sendEx\<close> on the empty name returns at once, whatever the other arguments.
\<close>

theorem empty_name_dropped:
  assumes "worker w" and "sendCh w = Some (item # rest)" and "it_stat item = ''''"
  shows "worker_step F w = (None, w\<lparr>sendCh := Some rest\<rparr>)
         \<and> sendEx F p '''' v t r g = (None, p, g)"
  using assms by (simp add: worker_step_def sendEx_def)

theorem empty_name_dropped_witness:
  "worker_step fmtF0
     (pkg_on\<lparr>worker := True, defaultClient := Some client0,
             sendCh := Some [\<lparr>it_stat = '''', it_val = VInt64 (- 3), it_t = metricTypeGauge, it_sampleRate = f32_one\<rparr>,
                             \<lparr>it_stat = ''cpu'', it_val = VInt64 3, it_t = metricTypeGauge, it_sampleRate = f32_one\<rparr>]\<rparr>)
   = (None, pkg_on\<lparr>worker := True, defaultClient := Some client0,
             sendCh := Some [\<lparr>it_stat = ''cpu'', it_val = VInt64 3, it_t = metricTypeGauge, it_sampleRate = f32_one\<rparr>]\<rparr>)"
proof -
  let ?i1 = "\<lparr>it_stat = '''', it_val = VInt64 (- 3), it_t = metricTypeGauge, it_sampleRate = f32_one\<rparr>"
  let ?i2 = "\<lparr>it_stat = ''cpu'', it_val = VInt64 3, it_t = metricTypeGauge, it_sampleRate = f32_one\<rparr>"
  let ?w = "pkg_on\<lparr>worker := True, defaultClient := Some client0, sendCh := Some [?i1, ?i2]\<rparr>"
  have h1: "worker ?w" by simp
  have h2: "sendCh ?w = Some (?i1 # [?i2])" by simp
  have h3: "it_stat ?i1 = ''''" by simp
  note t = empty_name_dropped [OF h1 h2 h3, where F = fmtF0]
  show ?thesis using t by simp
qed

text \<open>
  C9. When \<open>Client.IncrWithSampling\<close> returns an error, the error is
  \<open>ErrInvalidSampleRate\<close> or \<open>ErrInvalidCount\<close> and the client, its buffer included,
  is as it was before the call.
\<close>

theorem IncrWithSampling_error_keeps_buffer:
  assumes "fst (IncrWithSampling_c c stat cnt r g) = Some e"
  shows "buffer (fst (snd (IncrWithSampling_c c stat cnt r g))) = buffer c
         \<and> fst (snd (IncrWithSampling_c c stat cnt r g)) = c
         \<and> (e = ErrInvalidSampleRate \<or> e = ErrInvalidCount)"
  using assms
  by (auto simp: IncrWithSampling_c_def checkSampleRate_def checkCount_def Let_def
      split: option.splits prod.splits if_splits)

theorem IncrWithSampling_error_keeps_buffer_witness:
  "fst (IncrWithSampling_c (client0\<lparr>buffer := [\<lparr>name = ''a'', count = 2\<rparr>]\<rparr>) ''a'' 0 f32_one rng0)
     = Some ErrInvalidCount
   \<and> buffer (fst (snd (IncrWithSampling_c (client0\<lparr>buffer := [\<lparr>name = ''a'', count = 2\<rparr>]\<rparr>) ''a'' 0 f32_one rng0)))
     = [\<lparr>name = ''a'', count = 2\<rparr>]
   \<and> fst (IncrWithSampling_c (client0\<lparr>buffer := [\<lparr>name = ''a'', count = 2\<rparr>]\<rparr>) ''a'' 1 0x3FC00000 rng0)
     = Some ErrInvalidSampleRate
   \<and> buffer (fst (snd (IncrWithSampling_c (client0\<lparr>buffer := [\<lparr>name = ''a'', count = 2\<rparr>]\<rparr>) ''a'' 1 0x3FC00000 rng0)))
     = [\<lparr>name = ''a'', count = 2\<rparr>]"
proof -
  let ?c = "client0\<lparr>buffer := [\<lparr>name = ''a'', count = 2\<rparr>]\<rparr>"
  have c0: "checkCount 0 = Some ErrInvalidCount" by code_simp
  have r: "checkSampleRate 0x3FC00000 = Some ErrInvalidSampleRate" by code_simp
  have h1: "fst (IncrWithSampling_c ?c ''a'' 0 f32_one rng0) = Some ErrInvalidCount"
    by (simp add: IncrWithSampling_c_def checkSampleRate_one shouldFire_one c0)
  have h2: "fst (IncrWithSampling_c ?c ''a'' 1 0x3FC00000 rng0) = Some ErrInvalidSampleRate"
    by (simp add: IncrWithSampling_c_def r)
  note t1 = IncrWithSampling_error_keeps_buffer [OF h1]
  note t2 = IncrWithSampling_error_keeps_buffer [OF h2]
  show ?thesis using h1 h2 t1 t2 by simp
qed

text \<open>
  C10. \<open>Client.DecrWithSampling\<close> never changes the aggregation buffer. Called on a
  client that holds a connection, with a valid sample rate that fires and a positive
  count, it hands one line to the connection at once: the value is the negated count
  (which does not overflow), the type tag \<open>c\<close>, the rate the caller's.
  \<open>Client.IncrWithSampling\<close> never writes to the connection; with the same arguments
  it only calls \<open>addToBuffer\<close>.
\<close>

theorem DecrWithSampling_sends_at_once:
  "buffer (fst (snd (DecrWithSampling F c stat cnt r g))) = buffer c
   \<and> conn (fst (snd (IncrWithSampling_c c stat cnt r g))) = conn c
   \<and> (checkSampleRate r = None \<and> fst (shouldFire r g) \<and> 0 < sint cnt \<longrightarrow>
        fst (snd (IncrWithSampling_c c stat cnt r g)) = addToBuffer c stat cnt
        \<and> sint (- cnt) = - sint cnt
        \<and> (conn c = Some k \<longrightarrow>
             conn (fst (snd (DecrWithSampling F c stat cnt r g)))
               = Some (k\<lparr>writes := writes k @ [spec_encode F (prefix c) stat (VInt64 (- cnt)) ''c'' r]\<rparr>)))"
proof -
  have a: "buffer (fst (snd (DecrWithSampling F c stat cnt r g))) = buffer c"
    using send_c_buffer [of F c stat "VInt64 (- cnt)" "''c''" r]
    by (auto simp: DecrWithSampling_def Let_def split: option.splits prod.splits)
  have b: "conn (fst (snd (IncrWithSampling_c c stat cnt r g))) = conn c"
    by (auto simp: IncrWithSampling_c_def addToBuffer_conn Let_def split: option.splits prod.splits)
  have d: "fst (snd (IncrWithSampling_c c stat cnt r g)) = addToBuffer c stat cnt
        \<and> sint (- cnt) = - sint cnt
        \<and> (conn c = Some k \<longrightarrow>
             conn (fst (snd (DecrWithSampling F c stat cnt r g)))
               = Some (k\<lparr>writes := writes k @ [spec_encode F (prefix c) stat (VInt64 (- cnt)) ''c'' r]\<rparr>))"
    if h1: "checkSampleRate r = None" and h2: "fst (shouldFire r g)" and h3: "0 < sint cnt"
  proof -
    have cc: "checkCount cnt = None" using h3 by (simp add: checkCount_sint)
    obtain g' where sf: "shouldFire r g = (True, g')"
      using h2 by (cases "shouldFire r g") auto
    have 1: "fst (snd (IncrWithSampling_c c stat cnt r g)) = addToBuffer c stat cnt"
      by (simp add: IncrWithSampling_c_def h1 sf cc)
    have 2: "conn c = Some k \<longrightarrow>
             conn (fst (snd (DecrWithSampling F c stat cnt r g)))
               = Some (k\<lparr>writes := writes k @ [spec_encode F (prefix c) stat (VInt64 (- cnt)) ''c'' r]\<rparr>)"
      by (simp add: DecrWithSampling_def h1 cc sf send_c_connected)
    show ?thesis using 1 2 sint_neg_pos [OF h3] by blast
  qed
  show ?thesis using a b d by blast
qed

theorem DecrWithSampling_sends_at_once_witness:
  "map_option writes (conn (fst (snd (DecrWithSampling fmtF0 client0 ''hits'' 4 f32_one rng0))))
     = Some [''app.hits:-4|c|@1.000000'']
   \<and> buffer (fst (snd (DecrWithSampling fmtF0 client0 ''hits'' 4 f32_one rng0))) = []
   \<and> buffer (fst (snd (IncrWithSampling_c client0 ''hits'' 4 f32_one rng0))) = [\<lparr>name = ''hits'', count = 4\<rparr>]
   \<and> map_option writes (conn (fst (snd (IncrWithSampling_c client0 ''hits'' 4 f32_one rng0)))) = Some []"
proof -
  have h2: "fst (shouldFire f32_one rng0)" by (simp add: shouldFire_one)
  have h3: "0 < sint (4 :: int64)" by simp
  have h4: "conn client0 = Some conn0" by (simp add: client0_def)
  have p: "prefix client0 = ''app''" by (simp add: client0_def)
  have b0: "buffer client0 = []" by (simp add: client0_def)
  have d: "dec_int (- 4) = ''-4''" by code_simp
  note t = DecrWithSampling_sends_at_once [where F = fmtF0 and c = client0 and stat = "''hits''"
      and cnt = 4 and r = f32_one and g = rng0 and k = conn0]
  have 1: "map_option writes (conn (fst (snd (DecrWithSampling fmtF0 client0 ''hits'' 4 f32_one rng0))))
     = Some [''app.hits:-4|c|@1.000000'']"
    using t checkSampleRate_one h2 h3 h4
    by (simp add: p spec_encode_def fmt_v_def d fmt_f32_one conn0_def)
  have 2: "buffer (fst (snd (DecrWithSampling fmtF0 client0 ''hits'' 4 f32_one rng0))) = []"
    using t b0 by simp
  have 3: "buffer (fst (snd (IncrWithSampling_c client0 ''hits'' 4 f32_one rng0))) = [\<lparr>name = ''hits'', count = 4\<rparr>]"
    using t checkSampleRate_one h2 h3 by (simp add: addToBuffer_empty b0)
  have 4: "map_option writes (conn (fst (snd (IncrWithSampling_c client0 ''hits'' 4 f32_one rng0)))) = Some []"
    using t h4 by (simp add: conn0_def)
  show ?thesis using 1 2 3 4 by blast
qed

end
